theory Spec2Isabelle
  imports Complex_Main
begin

section \<open>Day care record keeper: the two variants of the HTTP handlers\<close>

text \<open>
  The repository holds two variants of the same express server: \<^verbatim>\<open>src/index.ts\<close>
  (definitions with the suffix \<open>_ix\<close>) and a reworked copy whose file name is unknown,
  \<^verbatim>\<open>unnamed/part_000\<close> (suffix \<open>_p0\<close>). Both are embedded, handler by handler.

  Conventions of the embedding:
  \<^item> a JavaScript number is \<open>jsnum\<close>: an exact rational, \<open>NaN\<close>, or one of the two
    infinities. Rounding to double precision is not modelled;
  \<^item> request bodies are read at the types the classes of the source declare, and carry
    the fields the handler reads: a string field is \<open>string option\<close> (\<open>None\<close> when the
    field is absent, and the empty string is falsy), \<open>childIds\<close> is a list of strings, the
    amount of a fee structure is a number. The \<open>amount\<close> of a payment request is the
    exception: the handler parses it with \<open>parseFloat\<close>, so it is a \<open>jsval\<close> (absent,
    null, boolean, number or string);
  \<^item> a string is a list of 8-bit code units;
  \<^item> \<open>uuidv4()\<close> and \<open>ic.time()\<close> are inputs of a request (\<open>env\<close>);
  \<^item> a handler returns its reply together with the state it leaves behind; an uncaught
    \<open>TypeError\<close> is the reply \<open>Uncaught\<close>.
\<close>

subsection \<open>Numbers\<close>

datatype jsnum = NaN | Fin rat | PInf | NInf

fun isNaN :: "jsnum \<Rightarrow> bool" where
  "isNaN NaN = True"
| "isNaN _ = False"

text \<open>\<^verbatim>\<open>Math.min(a, b)\<close> and \<^verbatim>\<open>Math.max(a, b)\<close>.\<close>

fun js_min :: "jsnum \<Rightarrow> jsnum \<Rightarrow> jsnum" where
  "js_min NaN _ = NaN"
| "js_min _ NaN = NaN"
| "js_min NInf _ = NInf"
| "js_min _ NInf = NInf"
| "js_min PInf y = y"
| "js_min x PInf = x"
| "js_min (Fin a) (Fin b) = Fin (min a b)"

fun js_max :: "jsnum \<Rightarrow> jsnum \<Rightarrow> jsnum" where
  "js_max NaN _ = NaN"
| "js_max _ NaN = NaN"
| "js_max PInf _ = PInf"
| "js_max _ PInf = PInf"
| "js_max NInf y = y"
| "js_max x NInf = x"
| "js_max (Fin a) (Fin b) = Fin (max a b)"

text \<open>\<^verbatim>\<open>a - b\<close>.\<close>

fun js_sub :: "jsnum \<Rightarrow> jsnum \<Rightarrow> jsnum" where
  "js_sub NaN _ = NaN"
| "js_sub _ NaN = NaN"
| "js_sub (Fin a) (Fin b) = Fin (a - b)"
| "js_sub (Fin a) PInf = NInf"
| "js_sub (Fin a) NInf = PInf"
| "js_sub PInf PInf = NaN"
| "js_sub PInf _ = PInf"
| "js_sub NInf NInf = NaN"
| "js_sub NInf _ = NInf"

text \<open>\<^verbatim>\<open>a * b\<close>.\<close>

fun js_mul :: "jsnum \<Rightarrow> jsnum \<Rightarrow> jsnum" where
  "js_mul NaN _ = NaN"
| "js_mul _ NaN = NaN"
| "js_mul (Fin a) (Fin b) = Fin (a * b)"
| "js_mul (Fin a) PInf = (if a = 0 then NaN else if 0 < a then PInf else NInf)"
| "js_mul (Fin a) NInf = (if a = 0 then NaN else if 0 < a then NInf else PInf)"
| "js_mul PInf (Fin b) = (if b = 0 then NaN else if 0 < b then PInf else NInf)"
| "js_mul NInf (Fin b) = (if b = 0 then NaN else if 0 < b then NInf else PInf)"
| "js_mul PInf PInf = PInf"
| "js_mul PInf NInf = NInf"
| "js_mul NInf PInf = NInf"
| "js_mul NInf NInf = PInf"

text \<open>\<^verbatim>\<open>a <= 0\<close>.\<close>

fun js_le0 :: "jsnum \<Rightarrow> bool" where
  "js_le0 (Fin a) = (a \<le> 0)"
| "js_le0 NInf = True"
| "js_le0 _ = False"

text \<open>Truthiness of a number: \<open>0\<close> and \<open>NaN\<close> are falsy.\<close>

fun truthy_num :: "jsnum \<Rightarrow> bool" where
  "truthy_num NaN = False"
| "truthy_num (Fin a) = (a \<noteq> 0)"
| "truthy_num _ = True"

subsection \<open>Values of the \<open>amount\<close> field, truthiness and \<open>parseFloat\<close>\<close>

datatype jsval = JUndef | JNull | JBool bool | JNum jsnum | JStr string

fun truthy :: "jsval \<Rightarrow> bool" where
  "truthy JUndef = False"
| "truthy JNull = False"
| "truthy (JBool b) = b"
| "truthy (JNum n) = truthy_num n"
| "truthy (JStr s) = (s \<noteq> [])"

definition is_ws :: "char \<Rightarrow> bool" where
  "is_ws c = ((of_char c :: nat) \<in> {9, 10, 11, 12, 13, 32, 160})"

definition is_digit :: "char \<Rightarrow> bool" where
  "is_digit c = (48 \<le> (of_char c :: nat) \<and> (of_char c :: nat) \<le> 57)"

definition digits_val :: "string \<Rightarrow> nat" where
  "digits_val ds = foldl (\<lambda>a c. 10 * a + ((of_char c :: nat) - 48)) 0 ds"

text \<open>An optional sign in front of a literal: whether it is negative, and the rest.\<close>

fun strip_sign :: "string \<Rightarrow> bool \<times> string" where
  "strip_sign [] = (False, [])"
| "strip_sign (c # r) =
     (if c = CHR ''-'' then (True, r) else if c = CHR ''+'' then (False, r) else (False, c # r))"

text \<open>The exponent part of a decimal literal, \<open>0\<close> when there is none.\<close>

fun exponent_part :: "string \<Rightarrow> int" where
  "exponent_part [] = 0"
| "exponent_part (c # r) =
     (if c = CHR ''e'' \<or> c = CHR ''E'' then
        (let (eneg, d) = strip_sign r; ds = takeWhile is_digit d
         in if ds = [] then 0
            else if eneg then - int (digits_val ds) else int (digits_val ds))
      else 0)"

text \<open>
  \<^verbatim>\<open>parseFloat\<close> on a string: leading white space is skipped, the longest prefix that is
  a decimal literal is read, and the result is \<open>NaN\<close> when there is none.
\<close>

definition parse_float_str :: "string \<Rightarrow> jsnum" where
  "parse_float_str s =
     (let (neg, u) = strip_sign (dropWhile is_ws s)
      in if take 8 u = ''Infinity'' then (if neg then NInf else PInf)
         else
           (let ip = takeWhile is_digit u;
                r1 = dropWhile is_digit u;
                (fp, r2) = (case r1 of
                              [] \<Rightarrow> ([], r1)
                            | c # r \<Rightarrow> if c = CHR ''.''
                                       then (takeWhile is_digit r, dropWhile is_digit r)
                                       else ([], r1))
            in if ip = [] \<and> fp = [] then NaN
               else
                 (let m = of_nat (digits_val ip) + of_nat (digits_val fp) / 10 ^ length fp;
                      e = exponent_part r2;
                      v = (if 0 \<le> e then m * 10 ^ nat e else m / 10 ^ nat (- e))
                  in Fin (if neg then - v else v))))"

text \<open>
  \<^verbatim>\<open>parseFloat(v)\<close> converts its argument to a string first. A number reads back as
  itself; \<open>true\<close>, \<open>false\<close>, \<open>null\<close> and \<open>undefined\<close> have no numeric prefix.
\<close>

fun parseFloat :: "jsval \<Rightarrow> jsnum" where
  "parseFloat (JStr s) = parse_float_str s"
| "parseFloat (JNum n) = n"
| "parseFloat _ = NaN"

subsection \<open>The two patterns\<close>

text \<open>\<^verbatim>\<open>/^\d{10}$/\<close>\<close>

definition validatePhoneNumber :: "string \<Rightarrow> bool" where
  "validatePhoneNumber phoneNumber = (length phoneNumber = 10 \<and> list_all is_digit phoneNumber)"

text \<open>\<^verbatim>\<open>/^[^\s@]+@[^\s@]+\.[^\s@]+$/\<close>\<close>

definition email_char :: "char \<Rightarrow> bool" where
  "email_char c = (\<not> is_ws c \<and> c \<noteq> CHR ''@'')"

definition validateEmail :: "string \<Rightarrow> bool" where
  "validateEmail email =
     (let a = takeWhile (\<lambda>c. c \<noteq> CHR ''@'') email;
          r = dropWhile (\<lambda>c. c \<noteq> CHR ''@'') email
      in a \<noteq> [] \<and> list_all email_char a \<and>
         (case r of
            [] \<Rightarrow> False
          | _ # d \<Rightarrow> list_all email_char d \<and> CHR ''.'' \<in> set (butlast (tl d))))"

subsection \<open>Entities\<close>

text \<open>
  A date is the instant of the clock in milliseconds, a value taken from a request body
  as it came, or \<^verbatim>\<open>new Date(s)\<close> of a string of the body.
\<close>

datatype dateval = Instant nat | RawDate string | NewDate string

record Owner =
  o_id :: string
  o_name :: string
  o_email :: string
  o_phoneNumber :: string
  o_createdAt :: dateval

record Child =
  c_id :: string
  c_name :: string
  c_birthdate :: dateval
  c_guardianId :: string
  c_createdAt :: dateval

record Guardian =
  g_id :: string
  g_name :: string
  g_email :: string
  g_phoneNumber :: string
  g_childrenIds :: "string list"
  g_createdAt :: dateval

datatype PaymentStatus = PENDING | PAID | FAILED

record Payment =
  p_id :: string
  p_childId :: string
  p_amount :: jsnum
  p_status :: PaymentStatus
  p_date :: dateval

text \<open>
  \<open>f_ownerId\<close> is the \<open>ownerId\<close> of the request, which the object spread of
  \<^verbatim>\<open>src/index.ts\<close> copies into the stored object; \<^verbatim>\<open>unnamed/part_000\<close> does not store it.
\<close>

record FeeStructure =
  f_id :: string
  f_name :: string
  f_amount :: jsnum
  f_createdAt :: dateval
  f_ownerId :: "string option"

record BalanceEntry =
  childId :: string
  balance :: jsnum

subsection \<open>The stable maps\<close>

text \<open>
  A \<open>StableBTreeMap\<close> is a list of entries with distinct keys, in the order in which
  \<^verbatim>\<open>values()\<close> lists them: ascending keys, compared code unit by code unit.
\<close>

type_synonym 'v store = "(string \<times> 'v) list"

fun key_lt :: "string \<Rightarrow> string \<Rightarrow> bool" where
  "key_lt [] [] = False"
| "key_lt [] (y # ys) = True"
| "key_lt (x # xs) [] = False"
| "key_lt (x # xs) (y # ys) =
     ((of_char x :: nat) < of_char y \<or> (x = y \<and> key_lt xs ys))"

fun store_insert :: "string \<Rightarrow> 'v \<Rightarrow> 'v store \<Rightarrow> 'v store" where
  "store_insert k v [] = [(k, v)]"
| "store_insert k v ((k', v') # s) =
     (if k = k' then (k, v) # s
      else if key_lt k k' then (k, v) # (k', v') # s
      else (k', v') # store_insert k v s)"

definition store_get :: "string \<Rightarrow> 'v store \<Rightarrow> 'v option" where
  "store_get k s = map_of s k"

definition store_values :: "'v store \<Rightarrow> 'v list" where
  "store_values s = map snd s"

record state =
  childrenStorage :: "Child store"
  guardiansStorage :: "Guardian store"
  paymentsStorage :: "Payment store"
  ownerStorage :: "Owner store"
  feeStructureStorage :: "FeeStructure store"

subsection \<open>Requests and replies\<close>

text \<open>
  \<open>uuidv4 e k\<close> is the result of the \<open>k\<close>-th call of \<^verbatim>\<open>uuidv4()\<close> in the request, counted
  from \<open>0\<close>; \<open>ic_time e\<close> is \<^verbatim>\<open>ic.time()\<close>, in nanoseconds. \<open>getCurrentDate\<close> divides
  it by \<open>1000_000\<close> and makes a date of the quotient, which keeps the whole milliseconds
  (the passage of the clock through a double is not modelled).
\<close>

record env =
  uuidv4 :: "nat \<Rightarrow> string"
  ic_time :: nat

definition getCurrentDate :: "env \<Rightarrow> dateval" where
  "getCurrentDate e = Instant (ic_time e div 1000000)"

text \<open>The body of \<^verbatim>\<open>POST /owner\<close> and of \<^verbatim>\<open>POST /guardians\<close>.\<close>

record person_body =
  b_name :: "string option"
  b_email :: "string option"
  b_phoneNumber :: "string option"

record child_body =
  cb_name :: "string option"
  cb_birthdate :: "string option"
  cb_guardianId :: "string option"

record fee_body =
  fb_name :: "string option"
  fb_amount :: "jsnum option"
  fb_ownerId :: "string option"

record payment_body =
  pb_childIds :: "string list option"
  pb_amount :: jsval
  pb_guardianId :: "string option"


text \<open>A reply carries its HTTP status; a rejection carries its message as well.\<close>

datatype reply =
    Rejected nat string
  | RejectedIds nat string "string list"
  | Uncaught
  | OwnerReply nat Owner
  | ChildReply nat Child
  | GuardianReply nat Guardian
  | FeeReply nat FeeStructure
  | PaymentsReply nat "Payment list" "BalanceEntry list"

subsection \<open>POST /owner\<close>

text \<open>\<^verbatim>\<open>src/index.ts\<close>: an owner is refused when a stored owner has the same email.\<close>

definition post_owner_ix :: "env \<Rightarrow> person_body \<Rightarrow> state \<Rightarrow> reply \<times> state" where
  "post_owner_ix e b s =
     (case (b_name b, b_email b, b_phoneNumber b) of
        (Some name, Some email, Some phoneNumber) \<Rightarrow>
          if name = [] \<or> email = [] \<or> phoneNumber = []
          then (Rejected 400 ''Missing required fields'', s)
          else if \<not> validatePhoneNumber phoneNumber
          then (Rejected 400 ''Invalid phone number format'', s)
          else if \<not> validateEmail email
          then (Rejected 400 ''Invalid email format'', s)
          else
            (case find (\<lambda>ow. o_email ow = email) (store_values (ownerStorage s)) of
               Some owner1 \<Rightarrow> (Rejected 409 ''Owner with the same email already exists'', s)
             | None \<Rightarrow>
                 (let owner = \<lparr>o_id = uuidv4 e 0, o_name = name, o_email = email,
                               o_phoneNumber = phoneNumber, o_createdAt = getCurrentDate e\<rparr>
                  in (OwnerReply 200 owner,
                      s\<lparr>ownerStorage := store_insert (o_id owner) owner (ownerStorage s)\<rparr>)))
      | _ \<Rightarrow> (Rejected 400 ''Missing required fields'', s))"

text \<open>\<^verbatim>\<open>unnamed/part_000\<close>: an owner is refused when any owner is stored.\<close>

definition post_owner_p0 :: "env \<Rightarrow> person_body \<Rightarrow> state \<Rightarrow> reply \<times> state" where
  "post_owner_p0 e b s =
     (case (b_name b, b_email b, b_phoneNumber b) of
        (Some name, Some email, Some phoneNumber) \<Rightarrow>
          if name = [] \<or> email = [] \<or> phoneNumber = []
          then (Rejected 400 ''Missing required fields'', s)
          else if \<not> validatePhoneNumber phoneNumber
          then (Rejected 400 ''Invalid phone number format'', s)
          else if \<not> validateEmail email
          then (Rejected 400 ''Invalid email format'', s)
          else if length (store_values (ownerStorage s)) > 0
          then (Rejected 409 ''Owner already exists'', s)
          else
            (let owner = \<lparr>o_id = uuidv4 e 0, o_name = name, o_email = email,
                          o_phoneNumber = phoneNumber, o_createdAt = getCurrentDate e\<rparr>
             in (OwnerReply 201 owner,
                 s\<lparr>ownerStorage := store_insert (o_id owner) owner (ownerStorage s)\<rparr>))
      | _ \<Rightarrow> (Rejected 400 ''Missing required fields'', s))"

subsection \<open>POST /children\<close>



subsection \<open>POST /guardians\<close>

definition post_guardians_ix :: "env \<Rightarrow> person_body \<Rightarrow> state \<Rightarrow> reply \<times> state" where
  "post_guardians_ix e b s =
     (case (b_name b, b_email b, b_phoneNumber b) of
        (Some name, Some email, Some phoneNumber) \<Rightarrow>
          if name = [] \<or> email = [] \<or> phoneNumber = []
          then (Rejected 400 ''Missing required fields'', s)
          else if \<not> validatePhoneNumber phoneNumber
          then (Rejected 400 ''Invalid phone number format'', s)
          else if \<not> validateEmail email
          then (Rejected 400 ''Invalid email format'', s)
          else
            (case find (\<lambda>g. g_email g = email) (store_values (guardiansStorage s)) of
               Some guardian1 \<Rightarrow>
                 (Rejected 409 ''Guardian with the same email already exists'', s)
             | None \<Rightarrow>
                 (let guardian = \<lparr>g_id = uuidv4 e 0, g_name = name, g_email = email,
                                  g_phoneNumber = phoneNumber, g_childrenIds = [],
                                  g_createdAt = getCurrentDate e\<rparr>
                  in (GuardianReply 200 guardian,
                      s\<lparr>guardiansStorage :=
                           store_insert (g_id guardian) guardian (guardiansStorage s)\<rparr>)))
      | _ \<Rightarrow> (Rejected 400 ''Missing required fields'', s))"

definition post_guardians_p0 :: "env \<Rightarrow> person_body \<Rightarrow> state \<Rightarrow> reply \<times> state" where
  "post_guardians_p0 e b s =
     (case (b_name b, b_email b, b_phoneNumber b) of
        (Some name, Some email, Some phoneNumber) \<Rightarrow>
          if name = [] \<or> email = [] \<or> phoneNumber = []
          then (Rejected 400 ''Missing required fields'', s)
          else if \<not> validatePhoneNumber phoneNumber
          then (Rejected 400 ''Invalid phone number format'', s)
          else if \<not> validateEmail email
          then (Rejected 400 ''Invalid email format'', s)
          else
            (case find (\<lambda>g. g_email g = email) (store_values (guardiansStorage s)) of
               Some existingGuardian \<Rightarrow>
                 (Rejected 409 ''Guardian with the same email already exists'', s)
             | None \<Rightarrow>
                 (let guardian = \<lparr>g_id = uuidv4 e 0, g_name = name, g_email = email,
                                  g_phoneNumber = phoneNumber, g_childrenIds = [],
                                  g_createdAt = getCurrentDate e\<rparr>
                  in (GuardianReply 201 guardian,
                      s\<lparr>guardiansStorage :=
                           store_insert (g_id guardian) guardian (guardiansStorage s)\<rparr>)))
      | _ \<Rightarrow> (Rejected 400 ''Missing required fields'', s))"

subsection \<open>POST /fee-structure\<close>

text \<open>
  The amount is only tested for truthiness (\<^verbatim>\<open>!amount\<close>) and stored as it came, in both
  variants.
\<close>

definition post_fee_structure_ix :: "env \<Rightarrow> fee_body \<Rightarrow> state \<Rightarrow> reply \<times> state" where
  "post_fee_structure_ix e b s =
     (case (fb_name b, fb_amount b, fb_ownerId b) of
        (Some name, Some amount, Some ownerId) \<Rightarrow>
          if name = [] \<or> ownerId = [] \<or> \<not> truthy_num amount
          then (Rejected 400 ''Missing required fields'', s)
          else
            (case store_get ownerId (ownerStorage s) of
               None \<Rightarrow> (Rejected 404 ''Owner not found'', s)
             | Some owner \<Rightarrow>
                 (let feeStructure = \<lparr>f_id = uuidv4 e 0, f_name = name, f_amount = amount,
                                      f_createdAt = getCurrentDate e, f_ownerId = Some ownerId\<rparr>
                  in (FeeReply 200 feeStructure,
                      s\<lparr>feeStructureStorage :=
                           store_insert (f_id feeStructure) feeStructure (feeStructureStorage s)\<rparr>)))
      | _ \<Rightarrow> (Rejected 400 ''Missing required fields'', s))"

definition post_fee_structure_p0 :: "env \<Rightarrow> fee_body \<Rightarrow> state \<Rightarrow> reply \<times> state" where
  "post_fee_structure_p0 e b s =
     (case (fb_name b, fb_amount b, fb_ownerId b) of
        (Some name, Some amount, Some ownerId) \<Rightarrow>
          if name = [] \<or> ownerId = [] \<or> \<not> truthy_num amount
          then (Rejected 400 ''Missing required fields'', s)
          else
            (case store_get ownerId (ownerStorage s) of
               None \<Rightarrow> (Rejected 404 ''Owner not found'', s)
             | Some owner \<Rightarrow>
                 (let feeStructure = \<lparr>f_id = uuidv4 e 0, f_name = name, f_amount = amount,
                                      f_createdAt = getCurrentDate e, f_ownerId = None\<rparr>
                  in (FeeReply 201 feeStructure,
                      s\<lparr>feeStructureStorage :=
                           store_insert (f_id feeStructure) feeStructure (feeStructureStorage s)\<rparr>)))
      | _ \<Rightarrow> (Rejected 400 ''Missing required fields'', s))"

subsection \<open>POST /payments\<close>

text \<open>
  The two \<^verbatim>\<open>map\<close> calls over the children share the mutable variable that holds the
  amount (\<open>amount\<close> in \<^verbatim>\<open>src/index.ts\<close>, \<open>amountNum\<close> in \<^verbatim>\<open>unnamed/part_000\<close>): each loop
  takes the value the variable has when it starts and returns the value it leaves.
  The balances are computed first, the payments second.
\<close>

text \<open>\<^verbatim>\<open>unnamed/part_000\<close>: the children that did not resolve were filtered out before.\<close>

fun balance_loop_p0 :: "jsnum \<Rightarrow> jsnum \<Rightarrow> Child list \<Rightarrow> BalanceEntry list \<times> jsnum" where
  "balance_loop_p0 amountPerChild amountNum [] = ([], amountNum)"
| "balance_loop_p0 amountPerChild amountNum (child # rest) =
     (let paymentAmount = js_min amountPerChild amountNum;
          amountNum' = js_sub amountNum paymentAmount;
          balance = js_max (Fin 0) (js_sub amountPerChild paymentAmount);
          (entries, final) = balance_loop_p0 amountPerChild amountNum' rest
      in (\<lparr>childId = c_id child, balance = balance\<rparr> # entries, final))"

fun payment_loop_p0 ::
  "env \<Rightarrow> nat \<Rightarrow> jsnum \<Rightarrow> jsnum \<Rightarrow> Child list \<Rightarrow> Payment list \<times> jsnum" where
  "payment_loop_p0 e k amountPerChild amountNum [] = ([], amountNum)"
| "payment_loop_p0 e k amountPerChild amountNum (child # rest) =
     (let paymentAmount = js_min amountPerChild amountNum;
          amountNum' = js_sub amountNum paymentAmount;
          (payments, final) = payment_loop_p0 e (Suc k) amountPerChild amountNum' rest
      in (\<lparr>p_id = uuidv4 e k, p_childId = c_id child, p_amount = paymentAmount,
           p_status = PAID, p_date = getCurrentDate e\<rparr> # payments, final))"

text \<open>
  \<^verbatim>\<open>src/index.ts\<close>: the list still holds \<open>null\<close> for a child that did not resolve; the
  balance loop answers a dummy entry for it and the payment loop \<open>null\<close>, filtered out
  afterwards.
\<close>

fun balance_loop_ix ::
  "jsnum \<Rightarrow> jsnum \<Rightarrow> Child option list \<Rightarrow> BalanceEntry list \<times> jsnum" where
  "balance_loop_ix amountPerChild amount [] = ([], amount)"
| "balance_loop_ix amountPerChild amount (None # rest) =
     (let (entries, final) = balance_loop_ix amountPerChild amount rest
      in (\<lparr>childId = [], balance = Fin 0\<rparr> # entries, final))"
| "balance_loop_ix amountPerChild amount (Some child # rest) =
     (let paymentAmount = js_min amountPerChild amount;
          amount' = js_sub amount paymentAmount;
          balance = js_max (Fin 0) (js_sub amountPerChild paymentAmount);
          (entries, final) = balance_loop_ix amountPerChild amount' rest
      in (\<lparr>childId = c_id child, balance = balance\<rparr> # entries, final))"

fun payment_loop_ix ::
  "env \<Rightarrow> nat \<Rightarrow> jsnum \<Rightarrow> jsnum \<Rightarrow> Child option list \<Rightarrow> Payment option list \<times> jsnum" where
  "payment_loop_ix e k amountPerChild amount [] = ([], amount)"
| "payment_loop_ix e k amountPerChild amount (None # rest) =
     (let (payments, final) = payment_loop_ix e k amountPerChild amount rest
      in (None # payments, final))"
| "payment_loop_ix e k amountPerChild amount (Some child # rest) =
     (let paymentAmount = js_min amountPerChild amount;
          amount' = js_sub amount paymentAmount;
          (payments, final) = payment_loop_ix e (Suc k) amountPerChild amount' rest
      in (Some \<lparr>p_id = uuidv4 e k, p_childId = c_id child, p_amount = paymentAmount,
                p_status = PAID, p_date = getCurrentDate e\<rparr> # payments, final))"

text \<open>\<^verbatim>\<open>payments.forEach((payment) => paymentsStorage.insert(payment.id, payment))\<close>\<close>

definition store_payments :: "Payment list \<Rightarrow> Payment store \<Rightarrow> Payment store" where
  "store_payments payments st = foldl (\<lambda>acc payment. store_insert (p_id payment) payment acc) st payments"

text \<open>
  \<^verbatim>\<open>src/index.ts\<close> takes \<^verbatim>\<open>feeStructureStorage.values()[0]\<close> without a test: with no fee
  structure the variable is \<open>undefined\<close>, and reading \<^verbatim>\<open>feeStructure.amount\<close>, after the
  check of the child ids, throws.
\<close>

definition post_payments_ix :: "env \<Rightarrow> payment_body \<Rightarrow> state \<Rightarrow> reply \<times> state" where
  "post_payments_ix e b s =
     (case (pb_childIds b, pb_guardianId b) of
        (Some childIds, Some guardianId) \<Rightarrow>
          if guardianId = [] \<or> \<not> truthy (pb_amount b)
          then (Rejected 400 ''Missing required fields'', s)
          else
            (case store_get guardianId (guardiansStorage s) of
               None \<Rightarrow> (Rejected 404 ''Guardian not found'', s)
             | Some guardian \<Rightarrow>
                 (let feeStructure = (case store_values (feeStructureStorage s) of
                                        [] \<Rightarrow> None | f # _ \<Rightarrow> Some f);
                      amount = parseFloat (pb_amount b)
                  in if isNaN amount \<or> js_le0 amount
                     then (Rejected 400 ''Invalid amount'', s)
                     else
                       (let invalidChildIds =
                              filter (\<lambda>childId. store_get childId (childrenStorage s) = None) childIds;
                            validChildren =
                              map (\<lambda>childId. store_get childId (childrenStorage s)) childIds
                        in if length invalidChildIds > 0
                           then (RejectedIds 404 ''Invalid child IDs'' invalidChildIds, s)
                           else
                             (case feeStructure of
                                None \<Rightarrow> (Uncaught, s)
                              | Some fs \<Rightarrow>
                                  (let totalAmountPayable =
                                         js_mul (f_amount fs) (Fin (of_nat (length validChildren)));
                                       amountPerChild = f_amount fs;
                                       (balancePerChild, amount1) =
                                         balance_loop_ix amountPerChild amount validChildren;
                                       (payments0, amount2) =
                                         payment_loop_ix e 0 amountPerChild amount1 validChildren;
                                       payments = List.map_filter (\<lambda>p. p) payments0
                                   in (PaymentsReply 200 payments balancePerChild,
                                       s\<lparr>paymentsStorage :=
                                            store_payments payments (paymentsStorage s)\<rparr>))))))
      | _ \<Rightarrow> (Rejected 400 ''Missing required fields'', s))"

text \<open>\<^verbatim>\<open>unnamed/part_000\<close> answers 404 when no fee structure is stored.\<close>

definition post_payments_p0 :: "env \<Rightarrow> payment_body \<Rightarrow> state \<Rightarrow> reply \<times> state" where
  "post_payments_p0 e b s =
     (case (pb_childIds b, pb_guardianId b) of
        (Some childIds, Some guardianId) \<Rightarrow>
          if guardianId = [] \<or> \<not> truthy (pb_amount b)
          then (Rejected 400 ''Missing required fields'', s)
          else
            (case store_get guardianId (guardiansStorage s) of
               None \<Rightarrow> (Rejected 404 ''Guardian not found'', s)
             | Some guardian \<Rightarrow>
                 (case store_values (feeStructureStorage s) of
                    [] \<Rightarrow> (Rejected 404 ''Fee structure not found'', s)
                  | feeStructure # _ \<Rightarrow>
                      (let amountNum = parseFloat (pb_amount b)
                       in if isNaN amountNum \<or> js_le0 amountNum
                          then (Rejected 400 ''Invalid amount'', s)
                          else
                            (let invalidChildIds =
                                   filter (\<lambda>childId. store_get childId (childrenStorage s) = None)
                                     childIds;
                                 validChildren =
                                   List.map_filter (\<lambda>childId. store_get childId (childrenStorage s))
                                     childIds
                             in if length invalidChildIds > 0
                                then (RejectedIds 404 ''Invalid child IDs'' invalidChildIds, s)
                                else
                                  (let totalAmountPayable =
                                         js_mul (f_amount feeStructure)
                                           (Fin (of_nat (length validChildren)));
                                       amountPerChild = f_amount feeStructure;
                                       (balancePerChild, amountNum1) =
                                         balance_loop_p0 amountPerChild amountNum validChildren;
                                       (payments, amountNum2) =
                                         payment_loop_p0 e 0 amountPerChild amountNum1 validChildren
                                   in (PaymentsReply 201 payments balancePerChild,
                                       s\<lparr>paymentsStorage :=
                                            store_payments payments (paymentsStorage s)\<rparr>))))))
      | _ \<Rightarrow> (Rejected 400 ''Missing required fields'', s))"

subsection \<open>PUT /children/:id\<close>



section \<open>The allocation as the specification words it\<close>

text \<open>
  ``Let \<open>remaining = requestedAmount\<close>. For each child in order:
  \<open>applied = min(feePerChild, remaining)\<close>; \<open>remaining -= applied\<close>;
  \<open>balance = max(0, feePerChild - applied)\<close>.'' \<open>spec_remaining f a i\<close> is the remaining
  amount before the child at position \<open>i\<close> (counted from \<open>0\<close>).
\<close>

fun spec_remaining :: "rat \<Rightarrow> rat \<Rightarrow> nat \<Rightarrow> rat" where
  "spec_remaining feePerChild remaining 0 = remaining"
| "spec_remaining feePerChild remaining (Suc i) =
     spec_remaining feePerChild (remaining - min feePerChild remaining) i"

definition spec_applied :: "rat \<Rightarrow> rat \<Rightarrow> nat \<Rightarrow> rat" where
  "spec_applied feePerChild requestedAmount i =
     min feePerChild (spec_remaining feePerChild requestedAmount i)"


text \<open>An amount that passed the validation: a rational that is not negative, or infinite.\<close>

fun nonneg :: "jsnum \<Rightarrow> bool" where
  "nonneg (Fin a) = (0 \<le> a)"
| "nonneg PInf = True"
| "nonneg _ = False"

section \<open>A small day care, used to run the handlers\<close>

definition demo_env :: env where
  "demo_env = \<lparr>uuidv4 = (\<lambda>k. replicate (Suc k) CHR ''p''), ic_time = 2000000\<rparr>"

definition demo_owner :: Owner where
  "demo_owner = \<lparr>o_id = ''o1'', o_name = ''Olga'', o_email = ''olga@example.org'',
     o_phoneNumber = ''0123456789'', o_createdAt = Instant 1\<rparr>"

definition demo_guardian :: Guardian where
  "demo_guardian = \<lparr>g_id = ''g1'', g_name = ''Ann'', g_email = ''ann@example.org'',
     g_phoneNumber = ''0123456789'', g_childrenIds = [], g_createdAt = Instant 1\<rparr>"

definition demo_child :: "string \<Rightarrow> Child" where
  "demo_child k = \<lparr>c_id = k, c_name = ''Kid'', c_birthdate = RawDate ''2020-01-01'',
     c_guardianId = ''g1'', c_createdAt = Instant 1\<rparr>"

definition demo_fee :: FeeStructure where
  "demo_fee = \<lparr>f_id = ''f1'', f_name = ''Basic'', f_amount = Fin 100,
     f_createdAt = Instant 1, f_ownerId = None\<rparr>"

definition demo_state :: state where
  "demo_state = \<lparr>childrenStorage = [(''c1'', demo_child ''c1''), (''c2'', demo_child ''c2'')],
     guardiansStorage = [(''g1'', demo_guardian)], paymentsStorage = [],
     ownerStorage = [(''o1'', demo_owner)], feeStructureStorage = [(''f1'', demo_fee)]\<rparr>"

text \<open>A payment request of guardian \<open>g1\<close> for the given children.\<close>

definition demo_request :: "string list \<Rightarrow> jsval \<Rightarrow> payment_body" where
  "demo_request ids a = \<lparr>pb_childIds = Some ids, pb_amount = a, pb_guardianId = Some ''g1''\<rparr>"

definition demo_payment :: "string \<Rightarrow> string \<Rightarrow> rat \<Rightarrow> Payment" where
  "demo_payment k c a = \<lparr>p_id = k, p_childId = c, p_amount = Fin a, p_status = PAID,
     p_date = Instant 2\<rparr>"

text \<open>
  A request for a child of guardian \<open>g1\<close>, and the child that a handler makes of it; the
  birth date is a parameter, since the two variants store it differently.
\<close>

definition demo_child_body :: child_body where
  "demo_child_body =
     \<lparr>cb_name = Some ''Tom'', cb_birthdate = Some ''2021-05-05'', cb_guardianId = Some ''g1''\<rparr>"

definition demo_new_child :: "dateval \<Rightarrow> Child" where
  "demo_new_child d = \<lparr>c_id = ''p'', c_name = ''Tom'', c_birthdate = d,
     c_guardianId = ''g1'', c_createdAt = Instant 2\<rparr>"

section \<open>Lemmas\<close>

subsection \<open>Stores and loops\<close>


lemma all_resolved:
  "filter (\<lambda>x. f x = None) xs = [] \<Longrightarrow> map f xs = map Some (List.map_filter f xs)"
  by (induction xs) (auto simp: List.map_filter_def split: if_splits)

lemma map_filter_Some: "List.map_filter (\<lambda>p. p) (map Some ps) = ps"
  by (induction ps) (auto simp: List.map_filter_def)

lemma balance_loop_ix_Some:
  "balance_loop_ix fee a (map Some cs) = balance_loop_p0 fee a cs"
  by (induction cs arbitrary: a) (auto simp: Let_def split_beta)

lemma payment_loop_ix_Some:
  "payment_loop_ix e k fee a (map Some cs) =
     (case payment_loop_p0 e k fee a cs of (ps, r) \<Rightarrow> (map Some ps, r))"
  by (induction cs arbitrary: a k) (auto simp: Let_def split_beta)


lemma length_payment_loop: "length (fst (payment_loop_p0 e k fee a cs)) = length cs"
  by (induction cs arbitrary: a k) (auto simp: Let_def split_beta)

lemma balance_loop_final:
  "snd (balance_loop_p0 (Fin f) (Fin a) cs) = Fin (spec_remaining f a (length cs))"
  by (induction cs arbitrary: a) (auto simp: Let_def split_beta)


lemma payment_loop_nth:
  "i < length cs \<Longrightarrow>
   fst (payment_loop_p0 e k (Fin f) (Fin a) cs) ! i =
     \<lparr>p_id = uuidv4 e (k + i), p_childId = c_id (cs ! i),
      p_amount = Fin (spec_applied f a i), p_status = PAID, p_date = getCurrentDate e\<rparr>"
proof (induction cs arbitrary: a i k)
  case Nil
  then show ?case by simp
next
  case (Cons c cs)
  show ?case
  proof (cases i)
    case 0
    then show ?thesis
      by (simp add: Let_def spec_applied_def split_beta)
  next
    case (Suc j)
    with Cons.prems have "j < length cs" by simp
    from Cons.IH [OF this, of "Suc k" "a - min f a"] Suc show ?thesis
      by (simp add: Let_def spec_applied_def split_beta)
  qed
qed




lemma validated_nonneg: "\<not> isNaN a \<Longrightarrow> \<not> js_le0 a \<Longrightarrow> nonneg a"
  by (cases a) auto

lemma step_nonneg: "0 < f \<Longrightarrow> nonneg x \<Longrightarrow> nonneg (js_sub x (js_min (Fin f) x))"
  by (cases x) auto

lemma step_bounded: "0 < f \<Longrightarrow> nonneg x \<Longrightarrow> \<exists>q. js_min (Fin f) x = Fin q \<and> 0 \<le> q \<and> q \<le> f"
  by (cases x) auto

lemma balance_loop_nonneg:
  "0 < f \<Longrightarrow> nonneg x \<Longrightarrow> nonneg (snd (balance_loop_p0 (Fin f) x cs))"
  by (induction cs arbitrary: x) (auto simp: Let_def split_beta step_nonneg)

lemma payment_loop_bounded:
  "0 < f \<Longrightarrow> nonneg x \<Longrightarrow> p \<in> set (fst (payment_loop_p0 e k (Fin f) x cs)) \<Longrightarrow>
   \<exists>q. p_amount p = Fin q \<and> 0 \<le> q \<and> q \<le> f"
proof (induction cs arbitrary: x k)
  case Nil
  then show ?case by simp
next
  case (Cons c cs)
  from Cons.prems(3) consider
      (hd) "p_amount p = js_min (Fin f) x"
    | (tl) "p \<in> set (fst (payment_loop_p0 e (Suc k) (Fin f) (js_sub x (js_min (Fin f) x)) cs))"
    by (auto simp: Let_def split_beta)
  then show ?case
  proof cases
    case hd
    with step_bounded [OF Cons.prems(1,2)] show ?thesis by simp
  next
    case tl
    from Cons.IH [OF Cons.prems(1) step_nonneg [OF Cons.prems(1,2)] tl] show ?thesis .
  qed
qed


lemma post_payments_p0_success:
  assumes ok: "post_payments_p0 e b s = (PaymentsReply code pays bals, s')"
  shows "\<exists>childIds g gu fs rest cs.
     pb_childIds b = Some childIds \<and> pb_guardianId b = Some g \<and> g \<noteq> [] \<and>
     truthy (pb_amount b) \<and> store_get g (guardiansStorage s) = Some gu \<and>
     store_values (feeStructureStorage s) = fs # rest \<and>
     \<not> isNaN (parseFloat (pb_amount b)) \<and> \<not> js_le0 (parseFloat (pb_amount b)) \<and>
     map (\<lambda>childId. store_get childId (childrenStorage s)) childIds = map Some cs \<and>
     bals = fst (balance_loop_p0 (f_amount fs) (parseFloat (pb_amount b)) cs) \<and>
     pays = fst (payment_loop_p0 e 0 (f_amount fs)
                  (snd (balance_loop_p0 (f_amount fs) (parseFloat (pb_amount b)) cs)) cs) \<and>
     s' = s\<lparr>paymentsStorage := store_payments pays (paymentsStorage s)\<rparr>"
proof -
  obtain childIds where c: "pb_childIds b = Some childIds"
    using ok by (cases "pb_childIds b") (simp_all add: post_payments_p0_def)
  obtain g where g: "pb_guardianId b = Some g"
    using ok c by (cases "pb_guardianId b") (simp_all add: post_payments_p0_def)
  have t: "truthy (pb_amount b)" and gne: "g \<noteq> []"
    using ok c g by (auto simp: post_payments_p0_def split: if_splits)
  obtain gu where gu: "store_get g (guardiansStorage s) = Some gu"
    using ok c g t gne by (cases "store_get g (guardiansStorage s)") (simp_all add: post_payments_p0_def)
  obtain fs rest where fs: "store_values (feeStructureStorage s) = fs # rest"
    using ok c g t gne gu
    by (cases "store_values (feeStructureStorage s)") (simp_all add: post_payments_p0_def)
  have a: "\<not> isNaN (parseFloat (pb_amount b))" "\<not> js_le0 (parseFloat (pb_amount b))"
    using ok c g t gne gu fs by (auto simp: post_payments_p0_def Let_def split: if_splits)
  have inv: "filter (\<lambda>childId. store_get childId (childrenStorage s) = None) childIds = []"
    using ok c g t gne gu fs a by (auto simp: post_payments_p0_def Let_def split: if_splits)
  define cs where "cs = List.map_filter (\<lambda>childId. store_get childId (childrenStorage s)) childIds"
  have m: "map (\<lambda>childId. store_get childId (childrenStorage s)) childIds = map Some cs"
    unfolding cs_def using inv by (rule all_resolved)
  have r: "bals = fst (balance_loop_p0 (f_amount fs) (parseFloat (pb_amount b)) cs)"
      "pays = fst (payment_loop_p0 e 0 (f_amount fs)
                  (snd (balance_loop_p0 (f_amount fs) (parseFloat (pb_amount b)) cs)) cs)"
      "s' = s\<lparr>paymentsStorage := store_payments pays (paymentsStorage s)\<rparr>"
    using ok c g t gne gu fs a inv
    by (auto simp: post_payments_p0_def Let_def split_beta cs_def)
  from c g gne t gu fs a m r show ?thesis by blast
qed

lemma post_payments_ix_success:
  assumes ok: "post_payments_ix e b s = (PaymentsReply code pays bals, s')"
  shows "\<exists>childIds g gu fs rest cs.
     pb_childIds b = Some childIds \<and> pb_guardianId b = Some g \<and> g \<noteq> [] \<and>
     truthy (pb_amount b) \<and> store_get g (guardiansStorage s) = Some gu \<and>
     store_values (feeStructureStorage s) = fs # rest \<and>
     \<not> isNaN (parseFloat (pb_amount b)) \<and> \<not> js_le0 (parseFloat (pb_amount b)) \<and>
     map (\<lambda>childId. store_get childId (childrenStorage s)) childIds = map Some cs \<and>
     bals = fst (balance_loop_p0 (f_amount fs) (parseFloat (pb_amount b)) cs) \<and>
     pays = fst (payment_loop_p0 e 0 (f_amount fs)
                  (snd (balance_loop_p0 (f_amount fs) (parseFloat (pb_amount b)) cs)) cs) \<and>
     s' = s\<lparr>paymentsStorage := store_payments pays (paymentsStorage s)\<rparr>"
proof -
  obtain childIds where c: "pb_childIds b = Some childIds"
    using ok by (cases "pb_childIds b") (simp_all add: post_payments_ix_def)
  obtain g where g: "pb_guardianId b = Some g"
    using ok c by (cases "pb_guardianId b") (simp_all add: post_payments_ix_def)
  have t: "truthy (pb_amount b)" and gne: "g \<noteq> []"
    using ok c g by (auto simp: post_payments_ix_def split: if_splits)
  obtain gu where gu: "store_get g (guardiansStorage s) = Some gu"
    using ok c g t gne by (cases "store_get g (guardiansStorage s)") (simp_all add: post_payments_ix_def)
  have a: "\<not> isNaN (parseFloat (pb_amount b))" "\<not> js_le0 (parseFloat (pb_amount b))"
    using ok c g t gne gu by (auto simp: post_payments_ix_def Let_def split: if_splits)
  have inv: "filter (\<lambda>childId. store_get childId (childrenStorage s) = None) childIds = []"
    using ok c g t gne gu a by (auto simp: post_payments_ix_def Let_def split: if_splits)
  obtain fs rest where fs: "store_values (feeStructureStorage s) = fs # rest"
    using ok c g t gne gu a inv
    by (cases "store_values (feeStructureStorage s)") (simp_all add: post_payments_ix_def)
  define cs where "cs = List.map_filter (\<lambda>childId. store_get childId (childrenStorage s)) childIds"
  have m: "map (\<lambda>childId. store_get childId (childrenStorage s)) childIds = map Some cs"
    unfolding cs_def using inv by (rule all_resolved)
  have r: "bals = fst (balance_loop_p0 (f_amount fs) (parseFloat (pb_amount b)) cs)"
      "pays = fst (payment_loop_p0 e 0 (f_amount fs)
                  (snd (balance_loop_p0 (f_amount fs) (parseFloat (pb_amount b)) cs)) cs)"
      "s' = s\<lparr>paymentsStorage := store_payments pays (paymentsStorage s)\<rparr>"
    using ok c g t gne gu fs a inv
    by (auto simp: post_payments_ix_def Let_def split_beta m balance_loop_ix_Some
          payment_loop_ix_Some map_filter_Some)
  from c g gne t gu fs a m r show ?thesis by blast
qed

subsection \<open>Runs of the payment handlers\<close>

lemmas demo_defs = demo_env_def demo_owner_def demo_guardian_def demo_child_def demo_fee_def
  demo_state_def demo_request_def demo_payment_def demo_child_body_def demo_new_child_def

text \<open>
  The first end-to-end scenario of the specification: one fee structure of 100, a payment
  of 150 for two children.
\<close>

lemma demo_run_ix:
  "post_payments_ix demo_env (demo_request [''c1'', ''c2''] (JNum (Fin 150))) demo_state =
     (PaymentsReply 200
        [demo_payment ''p'' ''c1'' 0, demo_payment ''pp'' ''c2'' 0]
        [\<lparr>childId = ''c1'', balance = Fin 0\<rparr>, \<lparr>childId = ''c2'', balance = Fin 50\<rparr>],
      demo_state\<lparr>paymentsStorage :=
        [(''p'', demo_payment ''p'' ''c1'' 0), (''pp'', demo_payment ''pp'' ''c2'' 0)]\<rparr>)"
  by (simp add: post_payments_ix_def demo_defs store_get_def store_values_def
        List.map_filter_def store_payments_def getCurrentDate_def Let_def)

lemma demo_run_p0:
  "post_payments_p0 demo_env (demo_request [''c1'', ''c2''] (JNum (Fin 150))) demo_state =
     (PaymentsReply 201
        [demo_payment ''p'' ''c1'' 0, demo_payment ''pp'' ''c2'' 0]
        [\<lparr>childId = ''c1'', balance = Fin 0\<rparr>, \<lparr>childId = ''c2'', balance = Fin 50\<rparr>],
      demo_state\<lparr>paymentsStorage :=
        [(''p'', demo_payment ''p'' ''c1'' 0), (''pp'', demo_payment ''pp'' ''c2'' 0)]\<rparr>)"
  by (simp add: post_payments_p0_def demo_defs store_get_def store_values_def
        List.map_filter_def store_payments_def getCurrentDate_def Let_def)

text \<open>
  What the payment loop computes in general: the allocation rule, started from the amount
  that the balance loop left over, not from the requested amount.
\<close>

lemma payments_use_leftover:
  assumes "post_payments_ix e b s = (PaymentsReply code pays bals, s')
         \<or> post_payments_p0 e b s = (PaymentsReply code pays bals, s')"
    and "pb_childIds b = Some childIds"
    and "store_values (feeStructureStorage s) = fs # rest"
    and "f_amount fs = Fin feePerChild"
    and "parseFloat (pb_amount b) = Fin requestedAmount"
    and "i < length childIds"
  shows "length pays = length childIds \<and>
         p_amount (pays ! i) =
           Fin (spec_applied feePerChild
                  (spec_remaining feePerChild requestedAmount (length childIds)) i)"
proof -
  from assms(1) obtain childIds' g gu fs' rest' cs where
    f: "pb_childIds b = Some childIds'" "store_values (feeStructureStorage s) = fs' # rest'"
      "map (\<lambda>childId. store_get childId (childrenStorage s)) childIds' = map Some cs"
      "pays = fst (payment_loop_p0 e 0 (f_amount fs')
                  (snd (balance_loop_p0 (f_amount fs') (parseFloat (pb_amount b)) cs)) cs)"
    using post_payments_ix_success post_payments_p0_success by meson
  from f(1,2) assms(2,3) have eq: "childIds' = childIds" "fs' = fs" by simp_all
  from f(3) have len: "length cs = length childIds" unfolding eq
    by (metis length_map)
  from f(4) have p: "pays = fst (payment_loop_p0 e 0 (Fin feePerChild)
      (Fin (spec_remaining feePerChild requestedAmount (length childIds))) cs)"
    unfolding eq assms(4,5) balance_loop_final len by simp
  from assms(6) len have "i < length cs" by simp
  from payment_loop_nth [OF this] p len show ?thesis
    by (simp add: length_payment_loop)
qed


subsection \<open>Requests that fail\<close>

text \<open>With no fee structure stored, the two payment handlers part ways.\<close>

lemma post_payments_p0_no_fee_structure:
  assumes "pb_childIds b = Some childIds" and "pb_guardianId b = Some g" and "g \<noteq> []"
    and "truthy (pb_amount b)" and "store_get g (guardiansStorage s) = Some gu"
    and "store_values (feeStructureStorage s) = []"
  shows "post_payments_p0 e b s = (Rejected 404 ''Fee structure not found'', s)"
  using assms by (simp add: post_payments_p0_def)

lemma post_payments_ix_no_fee_structure:
  assumes "pb_childIds b = Some childIds" and "pb_guardianId b = Some g" and "g \<noteq> []"
    and "truthy (pb_amount b)" and "store_get g (guardiansStorage s) = Some gu"
    and "store_values (feeStructureStorage s) = []"
    and "\<not> isNaN (parseFloat (pb_amount b))" and "\<not> js_le0 (parseFloat (pb_amount b))"
    and "filter (\<lambda>childId. store_get childId (childrenStorage s) = None) childIds = []"
  shows "post_payments_ix e b s = (Uncaught, s)"
  using assms by (simp add: post_payments_ix_def)


text \<open>
  \<^verbatim>\<open>unnamed/part_000\<close>: once an owner is stored, no request creates another one, and a
  request that passes the validation of its fields is answered 409.
\<close>

lemma post_owner_p0_single:
  assumes "ownerStorage s \<noteq> []"
  shows "snd (post_owner_p0 e b s) = s"
    and "fst (post_owner_p0 e b s) \<noteq> OwnerReply code owner"
  using assms
  by (auto simp: post_owner_p0_def store_values_def split: option.splits)

lemma post_owner_p0_conflict:
  assumes "ownerStorage s \<noteq> []" and "b_name b = Some name" and "name \<noteq> []"
    and "b_email b = Some email" and "validateEmail email"
    and "b_phoneNumber b = Some phoneNumber" and "validatePhoneNumber phoneNumber"
  shows "post_owner_p0 e b s = (Rejected 409 ''Owner already exists'', s)"
proof -
  from assms(5) have "email \<noteq> []" by (auto simp: validateEmail_def)
  moreover from assms(7) have "phoneNumber \<noteq> []" by (auto simp: validatePhoneNumber_def)
  ultimately show ?thesis using assms
    by (simp add: post_owner_p0_def store_values_def)
qed

subsection \<open>A negative fee\<close>

text \<open>
  The allocation presupposes a positive fee: with a stored fee of \<open>-5\<close> the payment of
  a child carries the amount \<open>-5\<close>.
\<close>

lemma negative_fee_allocation:
  "fst (post_payments_ix demo_env (demo_request [''c1''] (JNum (Fin 150)))
         (demo_state\<lparr>feeStructureStorage := [(''f1'', demo_fee\<lparr>f_amount := Fin (- 5)\<rparr>)]\<rparr>)) =
     PaymentsReply 200 [demo_payment ''p'' ''c1'' (- 5)] [\<lparr>childId = ''c1'', balance = Fin 0\<rparr>]"
  "fst (post_payments_p0 demo_env (demo_request [''c1''] (JNum (Fin 150)))
         (demo_state\<lparr>feeStructureStorage := [(''f1'', demo_fee\<lparr>f_amount := Fin (- 5)\<rparr>)]\<rparr>)) =
     PaymentsReply 201 [demo_payment ''p'' ''c1'' (- 5)] [\<lparr>childId = ''c1'', balance = Fin 0\<rparr>]"
  by (simp_all add: post_payments_ix_def post_payments_p0_def demo_defs store_get_def
        store_values_def List.map_filter_def store_payments_def getCurrentDate_def Let_def)

section \<open>The claims\<close>

text \<open>
  Claim C1. For every successful allocation the payment of the \<open>i\<close>-th child should carry
  \<open>applied_i = min(feePerChild, remaining before child i)\<close>, with the remaining amount
  starting at the requested amount; with a fee of 100 and a request of 150 for two
  children the payment amounts should be 100 and 50.
  Both handlers diverge: the loop that computes the balances has consumed the shared
  amount variable before the loop that builds the payments runs, so in this scenario
  both payments carry the amount 0, while the allocation rule gives 100 and 50.
\<close>

theorem C1_payment_amounts_scenario_A:
  "fst (post_payments_ix demo_env (demo_request [''c1'', ''c2''] (JNum (Fin 150))) demo_state) =
     PaymentsReply 200 [demo_payment ''p'' ''c1'' 0, demo_payment ''pp'' ''c2'' 0]
       [\<lparr>childId = ''c1'', balance = Fin 0\<rparr>, \<lparr>childId = ''c2'', balance = Fin 50\<rparr>]
   \<and> fst (post_payments_p0 demo_env (demo_request [''c1'', ''c2''] (JNum (Fin 150))) demo_state) =
     PaymentsReply 201 [demo_payment ''p'' ''c1'' 0, demo_payment ''pp'' ''c2'' 0]
       [\<lparr>childId = ''c1'', balance = Fin 0\<rparr>, \<lparr>childId = ''c2'', balance = Fin 50\<rparr>]
   \<and> map p_amount [demo_payment ''p'' ''c1'' 0, demo_payment ''pp'' ''c2'' 0] = [Fin 0, Fin 0]
   \<and> map Fin [spec_applied 100 150 0, spec_applied 100 150 1] = [Fin 100, Fin 50]"
  by (simp add: demo_run_ix demo_run_p0 demo_payment_def spec_applied_def)






text \<open>
  Claim C4. An allocation made when no fee structure is registered should fail with
  404 \<open>FeeStructureNotFound\<close> rather than crash. On an otherwise valid request
  \<^verbatim>\<open>src/index.ts\<close> throws (it reads \<open>amount\<close> of \<open>undefined\<close>), while \<^verbatim>\<open>unnamed/part_000\<close>
  answers 404; neither inserts a payment.
\<close>

theorem C4_no_fee_structure_run:
  "post_payments_ix demo_env (demo_request [''c1'', ''c2''] (JNum (Fin 150)))
       (demo_state\<lparr>feeStructureStorage := []\<rparr>) =
     (Uncaught, demo_state\<lparr>feeStructureStorage := []\<rparr>)
   \<and> post_payments_p0 demo_env (demo_request [''c1'', ''c2''] (JNum (Fin 150)))
       (demo_state\<lparr>feeStructureStorage := []\<rparr>) =
     (Rejected 404 ''Fee structure not found'', demo_state\<lparr>feeStructureStorage := []\<rparr>)"
  by (simp add: post_payments_ix_def post_payments_p0_def demo_defs store_get_def store_values_def)

text \<open>
  Claim C5. With an owner stored, a request for a second owner should be refused with
  409 whatever its email. \<^verbatim>\<open>src/index.ts\<close> only refuses an email that is already stored:
  a valid request with another email is accepted and a second owner is inserted, while
  \<^verbatim>\<open>unnamed/part_000\<close> answers 409.
\<close>

theorem C5_second_owner_run:
  "post_owner_ix demo_env
     \<lparr>b_name = Some ''Bob'', b_email = Some ''bob@example.org'', b_phoneNumber = Some ''0987654321''\<rparr>
     demo_state =
     (OwnerReply 200
        \<lparr>o_id = ''p'', o_name = ''Bob'', o_email = ''bob@example.org'',
         o_phoneNumber = ''0987654321'', o_createdAt = Instant 2\<rparr>,
      demo_state\<lparr>ownerStorage :=
        [(''o1'', demo_owner),
         (''p'', \<lparr>o_id = ''p'', o_name = ''Bob'', o_email = ''bob@example.org'',
                 o_phoneNumber = ''0987654321'', o_createdAt = Instant 2\<rparr>)]\<rparr>)
   \<and> post_owner_p0 demo_env
     \<lparr>b_name = Some ''Bob'', b_email = Some ''bob@example.org'', b_phoneNumber = Some ''0987654321''\<rparr>
     demo_state = (Rejected 409 ''Owner already exists'', demo_state)"
  by (simp add: post_owner_ix_def post_owner_p0_def demo_defs store_values_def
        validatePhoneNumber_def validateEmail_def is_digit_def is_ws_def email_char_def
        getCurrentDate_def Let_def)




text \<open>
  Claim C7. For every successful allocation, in both handlers, with a positive (finite)
  fee per child, every emitted payment amount is a number between 0 and the fee. The
  requested amount is positive in every successful call, since the handler validated it.
\<close>

theorem C7_payment_amounts_bounded:
  assumes "post_payments_ix e b s = (PaymentsReply code pays bals, s')
         \<or> post_payments_p0 e b s = (PaymentsReply code pays bals, s')"
    and "store_values (feeStructureStorage s) = fs # rest"
    and "f_amount fs = Fin feePerChild"
    and "0 < feePerChild"
  shows "\<forall>p \<in> set pays. \<exists>q. p_amount p = Fin q \<and> 0 \<le> q \<and> q \<le> feePerChild"
proof -
  from assms(1) obtain childIds' g gu fs' rest' cs where
    f: "store_values (feeStructureStorage s) = fs' # rest'"
      "\<not> isNaN (parseFloat (pb_amount b))" "\<not> js_le0 (parseFloat (pb_amount b))"
      "pays = fst (payment_loop_p0 e 0 (f_amount fs')
                  (snd (balance_loop_p0 (f_amount fs') (parseFloat (pb_amount b)) cs)) cs)"
    using post_payments_ix_success post_payments_p0_success by meson
  from f(1) assms(2) have eq: "fs' = fs" by simp
  from validated_nonneg [OF f(2,3)] have "nonneg (parseFloat (pb_amount b))" .
  from balance_loop_nonneg [OF assms(4) this]
  have left: "nonneg (snd (balance_loop_p0 (Fin feePerChild) (parseFloat (pb_amount b)) cs))" .
  from f(4) have "pays = fst (payment_loop_p0 e 0 (Fin feePerChild)
                  (snd (balance_loop_p0 (Fin feePerChild) (parseFloat (pb_amount b)) cs)) cs)"
    unfolding eq assms(3) .
  with payment_loop_bounded [OF assms(4) left] show ?thesis by blast
qed

text \<open>The theorem of C7 applied to a request of 250 (sent as a string) for two children.\<close>

theorem C7_payment_amounts_witness:
  "(0::rat) < 100 \<and>
   (\<exists>q. p_amount (demo_payment ''p'' ''c1'' 50) = Fin q \<and> 0 \<le> q \<and> q \<le> 100)"
proof -
  have run: "post_payments_ix demo_env (demo_request [''c1'', ''c2''] (JStr ''250'')) demo_state =
       (PaymentsReply 200 [demo_payment ''p'' ''c1'' 50, demo_payment ''pp'' ''c2'' 0]
          [\<lparr>childId = ''c1'', balance = Fin 0\<rparr>, \<lparr>childId = ''c2'', balance = Fin 0\<rparr>],
        demo_state\<lparr>paymentsStorage :=
          [(''p'', demo_payment ''p'' ''c1'' 50), (''pp'', demo_payment ''pp'' ''c2'' 0)]\<rparr>)"
    by (simp add: post_payments_ix_def demo_defs store_get_def store_values_def
        List.map_filter_def store_payments_def getCurrentDate_def Let_def
        parse_float_str_def is_ws_def is_digit_def digits_val_def)
  have fee: "store_values (feeStructureStorage demo_state) = demo_fee # []"
    by (simp add: demo_state_def store_values_def)
  have amt: "f_amount demo_fee = Fin 100" by (simp add: demo_fee_def)
  have pos: "(0::rat) < 100" by simp
  from C7_payment_amounts_bounded [OF disjI1 [OF run] fee amt pos]
  show ?thesis by (simp add: demo_payment_def)
qed

text \<open>
  Claim C8. Every stored fee structure should have a positive amount. Both handlers
  only test the amount for truthiness: a request with the amount \<open>-5\<close> succeeds and the
  fee structure is stored with that amount.
\<close>

theorem C8_negative_fee_run:
  "post_fee_structure_ix demo_env
     \<lparr>fb_name = Some ''Refund'', fb_amount = Some (Fin (- 5)), fb_ownerId = Some ''o1''\<rparr>
     demo_state =
     (FeeReply 200 \<lparr>f_id = ''p'', f_name = ''Refund'', f_amount = Fin (- 5),
        f_createdAt = Instant 2, f_ownerId = Some ''o1''\<rparr>,
      demo_state\<lparr>feeStructureStorage :=
        [(''f1'', demo_fee),
         (''p'', \<lparr>f_id = ''p'', f_name = ''Refund'', f_amount = Fin (- 5),
            f_createdAt = Instant 2, f_ownerId = Some ''o1''\<rparr>)]\<rparr>)
   \<and> post_fee_structure_p0 demo_env
     \<lparr>fb_name = Some ''Refund'', fb_amount = Some (Fin (- 5)), fb_ownerId = Some ''o1''\<rparr>
     demo_state =
     (FeeReply 201 \<lparr>f_id = ''p'', f_name = ''Refund'', f_amount = Fin (- 5),
        f_createdAt = Instant 2, f_ownerId = None\<rparr>,
      demo_state\<lparr>feeStructureStorage :=
        [(''f1'', demo_fee),
         (''p'', \<lparr>f_id = ''p'', f_name = ''Refund'', f_amount = Fin (- 5),
            f_createdAt = Instant 2, f_ownerId = None\<rparr>)]\<rparr>)"
  by (simp add: post_fee_structure_ix_def post_fee_structure_p0_def demo_defs store_get_def
        getCurrentDate_def Let_def)



text \<open>
  Claim C10, as stated: the ``Invalid amount'' reply is reached only by an amount that is
  truthy and parses to \<open>NaN\<close> or to a negative number. The string \<open>"0"\<close> is truthy,
  parses to \<open>0\<close>, and is answered ``Invalid amount'' by both handlers.
\<close>

theorem C10_zero_string_is_invalid_amount:
  "truthy (JStr ''0'') \<and> parseFloat (JStr ''0'') = Fin 0
   \<and> fst (post_payments_ix demo_env (demo_request [''c1''] (JStr ''0'')) demo_state) =
       Rejected 400 ''Invalid amount''
   \<and> fst (post_payments_p0 demo_env (demo_request [''c1''] (JStr ''0'')) demo_state) =
       Rejected 400 ''Invalid amount''"
  by (simp add: post_payments_ix_def post_payments_p0_def demo_defs store_get_def store_values_def
        parse_float_str_def is_ws_def is_digit_def digits_val_def Let_def)

text \<open>
  Claim C10, amended. In both handlers a request whose amount is falsy is answered
  400 ``Missing required fields'' whatever the state holds, and the state is unchanged;
  the reply ``Invalid amount'' is reached only by an amount that is truthy and parses to
  \<open>NaN\<close> or to a number that is at most \<open>0\<close> (negative, minus infinity, or zero).
\<close>

theorem C10_amount_checks:
  "(\<not> truthy (pb_amount b) \<longrightarrow>
      post_payments_ix e b s = (Rejected 400 ''Missing required fields'', s)
      \<and> post_payments_p0 e b s = (Rejected 400 ''Missing required fields'', s))
   \<and> (fst (post_payments_ix e b s) = Rejected 400 ''Invalid amount''
       \<or> fst (post_payments_p0 e b s) = Rejected 400 ''Invalid amount'' \<longrightarrow>
      truthy (pb_amount b)
      \<and> (parseFloat (pb_amount b) = NaN \<or> parseFloat (pb_amount b) = NInf
         \<or> (\<exists>q. parseFloat (pb_amount b) = Fin q \<and> q \<le> 0)))"
proof -
  have missing: "post_payments_ix e b s = (Rejected 400 ''Missing required fields'', s)
      \<and> post_payments_p0 e b s = (Rejected 400 ''Missing required fields'', s)"
    if "\<not> truthy (pb_amount b)"
    using that by (simp add: post_payments_ix_def post_payments_p0_def split: option.splits)
  have shape: "parseFloat (pb_amount b) = NaN \<or> parseFloat (pb_amount b) = NInf
         \<or> (\<exists>q. parseFloat (pb_amount b) = Fin q \<and> q \<le> 0)"
    if "isNaN (parseFloat (pb_amount b)) \<or> js_le0 (parseFloat (pb_amount b))"
    using that by (cases "parseFloat (pb_amount b)") auto
  have invalid: "truthy (pb_amount b)
      \<and> (isNaN (parseFloat (pb_amount b)) \<or> js_le0 (parseFloat (pb_amount b)))"
    if "fst (post_payments_ix e b s) = Rejected 400 ''Invalid amount''
       \<or> fst (post_payments_p0 e b s) = Rejected 400 ''Invalid amount''"
    using that
    by (auto simp: post_payments_ix_def post_payments_p0_def Let_def split_beta
             split: option.splits if_splits list.splits)
  from missing shape invalid show ?thesis by blast
qed

text \<open>
  The theorem of C10 applied to the amount \<open>0\<close> (falsy) and to the amount \<open>-3\<close>
  (truthy, answered ``Invalid amount'').
\<close>

theorem C10_amount_checks_witness:
  "post_payments_ix demo_env (demo_request [''c1''] (JNum (Fin 0))) demo_state =
     (Rejected 400 ''Missing required fields'', demo_state)
   \<and> post_payments_p0 demo_env (demo_request [''c1''] (JNum (Fin 0))) demo_state =
     (Rejected 400 ''Missing required fields'', demo_state)
   \<and> truthy (pb_amount (demo_request [''c1''] (JNum (Fin (- 3)))))
   \<and> parseFloat (pb_amount (demo_request [''c1''] (JNum (Fin (- 3))))) = Fin (- 3)"
proof -
  have falsy: "\<not> truthy (pb_amount (demo_request [''c1''] (JNum (Fin 0))))"
    by (simp add: demo_request_def)
  have invalid: "fst (post_payments_ix demo_env (demo_request [''c1''] (JNum (Fin (- 3)))) demo_state) =
      Rejected 400 ''Invalid amount''"
    by (simp add: post_payments_ix_def demo_defs store_get_def store_values_def)
  from C10_amount_checks [of "demo_request [''c1''] (JNum (Fin 0))" demo_env demo_state] falsy
    C10_amount_checks [of "demo_request [''c1''] (JNum (Fin (- 3)))" demo_env demo_state] invalid
  show ?thesis by (simp add: demo_request_def)
qed

end
